theory Spec2Isabelle
  imports Main
begin

section \<open>Values handed to the serializer\<close>

text \<open>
  A host command returns an arbitrary JavaScript value. Objects, arrays and functions
  have identity and may refer to each other (and to themselves), so they live in a heap
  and values refer to them by address. Every reference designates a live object: the
  heap is total. Numbers are kept as integers: the serializer hands a number back as it
  is, whatever it is.
\<close>

type_synonym addr = nat

datatype jsval =
    VNull
  | VUndefined
  | VBool bool
  | VNum int
  | VStr string
  | VSymbol string
  | VBigInt int
  | VRef addr

text \<open>
  An element of an array or an own enumerable property of an object either holds a
  value or is an accessor whose getter throws when read (for a \<open>Proxy\<close>, a \<open>get\<close> trap
  that throws). What is thrown is kept as the text that \<open>String(error)\<close> gives.
\<close>

datatype slot = Data jsval | GetterThrows string

text \<open>
  What lives at an address, told apart by what the serializer's tests and reads do.

  \<^item> \<open>HArray\<close>: \<open>Array.isArray\<close> holds; the elements in index order (a hole is an
    element that holds \<open>undefined\<close>: it reads the same).
  \<^item> \<open>HObject\<close>: \<open>typeof\<close> is \<open>'object'\<close>; the list is \<open>Object.keys\<close> with the
    property behind each key, in the order of \<open>Object.keys\<close> (keys distinct).
  \<^item> \<open>HFunction\<close>: \<open>typeof\<close> is \<open>'function'\<close>; the field is what \<open>String(f)\<close> yields,
    \<open>None\<close> when that conversion throws.
  \<^item> \<open>HRevokedProxy\<close>: a revoked \<open>Proxy\<close>; \<open>Array.isArray\<close> throws.
  \<^item> \<open>HArrayProxyThrows\<close>: a \<open>Proxy\<close> over an array whose traps throw;
    \<open>Array.isArray\<close> holds and \<open>obj.slice(0, 100)\<close> throws.
  \<^item> \<open>HObjectProxyThrows\<close>: a \<open>Proxy\<close> over an object whose \<open>ownKeys\<close> trap throws;
    \<open>typeof\<close> is \<open>'object'\<close> and \<open>Object.keys\<close> throws.

  The field of the last three is the text of what is thrown.

  A \<open>Proxy\<close> whose traps do not throw is an \<open>HArray\<close>, \<open>HObject\<close> or \<open>HFunction\<close> of
  its own.
\<close>

datatype hobj =
    HArray "slot list"
  | HObject "(string \<times> slot) list"
  | HFunction "string option"
  | HRevokedProxy string
  | HArrayProxyThrows string
  | HObjectProxyThrows string

type_synonym heap = "addr \<Rightarrow> hobj"

text \<open>The serializer's output: a fresh tree without identity.\<close>

datatype json =
    JNull
  | JUndefined
  | JBool bool
  | JNum int
  | JStr string
  | JArr "json list"
  | JObj "(string \<times> json) list"

datatype exn = Thrown string

section \<open>\<open>String(obj)\<close> for the values that reach the fallback\<close>

definition digit :: "nat \<Rightarrow> char" where
  "digit n = char_of (48 + n)"

function decimal :: "nat \<Rightarrow> string" where
  "decimal n = (if n < 10 then [digit n] else decimal (n div 10) @ [digit (n mod 10)])"
  by pat_completeness auto
termination
  by (relation "measure (\<lambda>n. n)") auto

definition bigint_text :: "int \<Rightarrow> string" where
  "bigint_text i = (if i < 0 then CHR ''-'' # decimal (nat (- i)) else decimal (nat i))"

definition symbol_text :: "string \<Rightarrow> string" where
  "symbol_text description = ''Symbol('' @ description @ '')''"

definition String_of_bigint :: "int \<Rightarrow> exn + string" where
  "String_of_bigint i = Inr (bigint_text i)"

definition String_of_symbol :: "string \<Rightarrow> exn + string" where
  "String_of_symbol description = Inr (symbol_text description)"

definition String_of_function :: "string option \<Rightarrow> exn + string" where
  "String_of_function f = (case f of Some s \<Rightarrow> Inr s | None \<Rightarrow> Inl (Thrown ''toString''))"

section \<open>safeSerialize\<close>

text \<open>
  \<open>seen\<close> is the \<open>WeakSet\<close> created once by the top-level call and passed by reference to
  every recursive call: it is threaded through, and what an inner call adds stays added
  after that call returns or throws. A call yields either a value or an exception,
  together with the set as it left it.
\<close>

type_synonym seen = "addr set"

text \<open>The values that the first two tests of \<open>safeSerialize\<close> return as they are.\<close>

fun is_primitive :: "jsval \<Rightarrow> bool" where
  "is_primitive VNull = True"
| "is_primitive VUndefined = True"
| "is_primitive (VBool b) = True"
| "is_primitive (VNum n) = True"
| "is_primitive (VStr s) = True"
| "is_primitive (VSymbol d) = False"
| "is_primitive (VBigInt i) = False"
| "is_primitive (VRef a) = False"


text \<open>\<open>try { return String(obj); } catch (e) { return '<unserializable>'; }\<close>\<close>

definition fallback :: "exn + string \<Rightarrow> seen \<Rightarrow> (exn + json) \<times> seen" where
  "fallback r seen =
     (case r of
        Inr s \<Rightarrow> (Inr (JStr s), seen)
      | Inl e \<Rightarrow> (Inr (JStr ''<unserializable>''), seen))"

text \<open>Reading \<open>obj[key]\<close>: the value of a data property, or the getter's exception.\<close>

definition read_property :: "slot \<Rightarrow> exn + jsval" where
  "read_property sl = (case sl of Data v \<Rightarrow> Inr v | GetterThrows err \<Rightarrow> Inl (Thrown err))"

text \<open>
  \<open>obj.slice(0, 100)\<close> on an array reads each of the first 100 elements into a new
  array; a getter that throws makes \<open>slice\<close> throw, before any element is serialized.
\<close>

fun read_elements :: "slot list \<Rightarrow> exn + jsval list" where
  "read_elements [] = Inr []"
| "read_elements (sl # rest) =
     (case read_property sl of
        Inl e \<Rightarrow> Inl e
      | Inr v \<Rightarrow> (case read_elements rest of Inl e \<Rightarrow> Inl e | Inr vs \<Rightarrow> Inr (v # vs)))"

definition slice_0_100 :: "slot list \<Rightarrow> exn + jsval list" where
  "slice_0_100 elems = read_elements (take 100 elems)"

text \<open>
  The statement \<open>result[key] = v\<close> on the object literal \<open>result\<close>. An own key is
  overwritten in place or added at the end. The key \<open>__proto__\<close> is the accessor
  inherited from \<open>Object.prototype\<close>: the assignment sets the prototype or does nothing,
  and creates no own key.
\<close>

fun assign :: "(string \<times> json) list \<Rightarrow> string \<Rightarrow> json \<Rightarrow> (string \<times> json) list" where
  "assign [] key v = [(key, v)]"
| "assign ((k, x) # result) key v =
     (if k = key then (k, v) # result else (k, x) # assign result key v)"

definition set_property :: "(string \<times> json) list \<Rightarrow> string \<Rightarrow> json \<Rightarrow> (string \<times> json) list" where
  "set_property result key v = (if key = ''__proto__'' then result else assign result key v)"

text \<open>
  \<open>map_items\<close> is \<open>.map(item => safeSerialize(item, maxDepth, currentDepth + 1, seen))\<close>:
  an exception of a callback leaves the \<open>map\<close>. \<open>for_keys\<close> is the loop over the keys,
  which fills \<open>result\<close>; its body is one \<open>try\<close>, so reading \<open>obj[key]\<close> or the
  recursive call throwing both end in \<open>'<serialization error>'\<close> for that key, and the
  loop goes on and cannot throw itself.

  In the branch for a reference the tests come in the order of the source: the depth
  test; \<open>Array.isArray\<close> (which throws for a revoked proxy) and the array branch;
  \<open>typeof obj === 'object'\<close> with \<open>seen.has\<close>, \<open>seen.add\<close> and \<open>Object.keys\<close>; the
  fallback. \<open>Array.isArray\<close>, \<open>slice\<close>, \<open>map\<close> and \<open>Object.keys\<close> stand outside every
  \<open>try\<close>: what they throw leaves the call.
\<close>

function safeSerialize :: "heap \<Rightarrow> jsval \<Rightarrow> int \<Rightarrow> int \<Rightarrow> seen \<Rightarrow> (exn + json) \<times> seen"
  and map_items :: "heap \<Rightarrow> jsval list \<Rightarrow> int \<Rightarrow> int \<Rightarrow> seen \<Rightarrow> (exn + json list) \<times> seen"
  and for_keys ::
    "heap \<Rightarrow> (string \<times> slot) list \<Rightarrow> int \<Rightarrow> int \<Rightarrow> (string \<times> json) list \<Rightarrow> seen
       \<Rightarrow> (string \<times> json) list \<times> seen"
where
  "safeSerialize h VNull maxDepth currentDepth seen = (Inr JNull, seen)"
| "safeSerialize h VUndefined maxDepth currentDepth seen = (Inr JUndefined, seen)"
| "safeSerialize h (VBool b) maxDepth currentDepth seen = (Inr (JBool b), seen)"
| "safeSerialize h (VNum n) maxDepth currentDepth seen = (Inr (JNum n), seen)"
| "safeSerialize h (VStr s) maxDepth currentDepth seen = (Inr (JStr s), seen)"
| "safeSerialize h (VSymbol d) maxDepth currentDepth seen =
     (if currentDepth > maxDepth then (Inr (JStr ''<max depth reached>''), seen)
      else fallback (String_of_symbol d) seen)"
| "safeSerialize h (VBigInt i) maxDepth currentDepth seen =
     (if currentDepth > maxDepth then (Inr (JStr ''<max depth reached>''), seen)
      else fallback (String_of_bigint i) seen)"
| "safeSerialize h (VRef a) maxDepth currentDepth seen =
     (if currentDepth > maxDepth then (Inr (JStr ''<max depth reached>''), seen)
      else case h a of
        HRevokedProxy err \<Rightarrow> (Inl (Thrown err), seen)
      | HArrayProxyThrows err \<Rightarrow> (Inl (Thrown err), seen)
      | HArray elems \<Rightarrow>
          (case slice_0_100 elems of
             Inl e \<Rightarrow> (Inl e, seen)
           | Inr items \<Rightarrow>
               (case map_items h items maxDepth currentDepth seen of
                  (Inl e, seen') \<Rightarrow> (Inl e, seen')
                | (Inr ys, seen') \<Rightarrow> (Inr (JArr ys), seen')))
      | HObject props \<Rightarrow>
          if a \<in> seen then (Inr (JStr ''<circular reference>''), seen)
          else (case for_keys h (take 100 props) maxDepth currentDepth [] (insert a seen) of
                  (result, seen') \<Rightarrow> (Inr (JObj result), seen'))
      | HObjectProxyThrows err \<Rightarrow>
          if a \<in> seen then (Inr (JStr ''<circular reference>''), seen)
          else (Inl (Thrown err), insert a seen)
      | HFunction f \<Rightarrow> fallback (String_of_function f) seen)"
| "map_items h [] maxDepth currentDepth seen = (Inr [], seen)"
| "map_items h (item # rest) maxDepth currentDepth seen =
     (case safeSerialize h item maxDepth (currentDepth + 1) seen of
        (Inl e, seen') \<Rightarrow> (Inl e, seen')
      | (Inr y, seen') \<Rightarrow>
          (case map_items h rest maxDepth currentDepth seen' of
             (Inl e, seen'') \<Rightarrow> (Inl e, seen'')
           | (Inr ys, seen'') \<Rightarrow> (Inr (y # ys), seen'')))"
| "for_keys h [] maxDepth currentDepth result seen = (result, seen)"
| "for_keys h ((key, sl) # rest) maxDepth currentDepth result seen =
     (case read_property sl of
        Inl e \<Rightarrow>
          for_keys h rest maxDepth currentDepth
            (set_property result key (JStr ''<serialization error>'')) seen
      | Inr v \<Rightarrow>
          (case safeSerialize h v maxDepth (currentDepth + 1) seen of
             (Inl e, seen') \<Rightarrow>
               for_keys h rest maxDepth currentDepth
                 (set_property result key (JStr ''<serialization error>'')) seen'
           | (Inr y, seen') \<Rightarrow>
               for_keys h rest maxDepth currentDepth (set_property result key y) seen'))"
  by pat_completeness auto
termination
  by (relation "inv_image (less_than <*lex*> less_than)
        (\<lambda>x. case x of
           Inl (h, obj, m, d, s) \<Rightarrow> (nat (m + 2 - d), 0)
         | Inr (Inl (h, xs, m, d, s)) \<Rightarrow> (nat (m + 1 - d), Suc (length xs))
         | Inr (Inr (h, ps, m, d, r, s)) \<Rightarrow> (nat (m + 1 - d), Suc (length ps)))")
     (auto split: if_splits)

text \<open>
  The two call sites, \<open>safeSerialize(result, 2)\<close>, and the default \<open>maxDepth = 3\<close>:
  \<open>currentDepth\<close> starts at 0 and \<open>seen\<close> empty.
\<close>

definition serialize :: "heap \<Rightarrow> jsval \<Rightarrow> int \<Rightarrow> exn + json" where
  "serialize h obj maxDepth = fst (safeSerialize h obj maxDepth 0 {})"

section \<open>The real structure of a value\<close>

text \<open>
  What the specification says the serializer yields when no object is met twice and
  nothing throws outside a \<open>try\<close>, written without the set of visited objects. \<open>n\<close>
  counts the levels left before the cut: a top-level call with \<open>maxDepth = m\<close> has
  \<open>m + 1\<close> levels, a call at \<open>currentDepth = d\<close> has \<open>m + 1 - d\<close>. Primitives pass through
  unchanged; an array is the array of its first 100 elements, an object the object of
  its first 100 keys, each element and property one level further down; a property
  whose read throws is \<open>'<serialization error>'\<close>; a function, symbol or bigint is its
  string, \<open>'<unserializable>'\<close> when that conversion throws; every value other than a
  primitive with no level left is \<open>'<max depth reached>'\<close>. For an array with an
  element whose read throws and for the proxies with throwing traps there is no such
  structure, and the value given here is immaterial.
\<close>

fun data_values :: "slot list \<Rightarrow> jsval list" where
  "data_values [] = []"
| "data_values (Data v # rest) = v # data_values rest"
| "data_values (GetterThrows err # rest) = data_values rest"

fun real_structure :: "heap \<Rightarrow> nat \<Rightarrow> jsval \<Rightarrow> json" where
  "real_structure h n VNull = JNull"
| "real_structure h n VUndefined = JUndefined"
| "real_structure h n (VBool b) = JBool b"
| "real_structure h n (VNum k) = JNum k"
| "real_structure h n (VStr s) = JStr s"
| "real_structure h 0 (VSymbol d) = JStr ''<max depth reached>''"
| "real_structure h 0 (VBigInt i) = JStr ''<max depth reached>''"
| "real_structure h 0 (VRef a) = JStr ''<max depth reached>''"
| "real_structure h (Suc n) (VSymbol d) = JStr (symbol_text d)"
| "real_structure h (Suc n) (VBigInt i) = JStr (bigint_text i)"
| "real_structure h (Suc n) (VRef a) =
     (case h a of
        HArray elems \<Rightarrow> JArr (map (real_structure h n) (data_values (take 100 elems)))
      | HObject props \<Rightarrow>
          JObj (map (\<lambda>(key, sl). (key, case sl of
                                         Data v \<Rightarrow> real_structure h n v
                                       | GetterThrows err \<Rightarrow> JStr ''<serialization error>''))
                  (take 100 props))
      | HFunction f \<Rightarrow> JStr (case f of Some s \<Rightarrow> s | None \<Rightarrow> ''<unserializable>'')
      | _ \<Rightarrow> JUndefined)"

text \<open>
  The objects that the traversal comes to, cut after \<open>n\<close> levels and at 100 elements
  and keys, in the order of the traversal and as often as it comes to them.
\<close>

fun objects_met :: "heap \<Rightarrow> nat \<Rightarrow> jsval \<Rightarrow> addr list" where
  "objects_met h (Suc n) (VRef a) =
     (case h a of
        HArray elems \<Rightarrow> concat (map (objects_met h n) (data_values (take 100 elems)))
      | HObject props \<Rightarrow>
          a # concat (map (objects_met h n) (data_values (map snd (take 100 props))))
      | _ \<Rightarrow> [])"
| "objects_met h n v = []"

text \<open>
  The traversal comes to nothing that throws outside a \<open>try\<close> and to no key
  \<open>__proto__\<close>: every element among the first 100 of an array it comes to holds a
  value, and it comes to no proxy with throwing traps.
\<close>

fun is_Data :: "slot \<Rightarrow> bool" where
  "is_Data (Data v) = True"
| "is_Data (GetterThrows err) = False"

fun ordinary :: "heap \<Rightarrow> nat \<Rightarrow> jsval \<Rightarrow> bool" where
  "ordinary h (Suc n) (VRef a) =
     (case h a of
        HArray elems \<Rightarrow>
          list_all is_Data (take 100 elems)
          \<and> list_all (ordinary h n) (data_values (take 100 elems))
      | HObject props \<Rightarrow>
          distinct (map fst (take 100 props))
          \<and> list_all (\<lambda>key. key \<noteq> ''__proto__'') (map fst (take 100 props))
          \<and> list_all (ordinary h n) (data_values (map snd (take 100 props)))
      | HFunction f \<Rightarrow> True
      | _ \<Rightarrow> False)"
| "ordinary h n v = True"

text \<open>
  Positions: a step goes from an array to one of its first 100 elements, or from an
  object to the value behind one of its first 100 keys; in the output, from an array to
  an element and from an object to the value of a key.
\<close>

datatype step = Index nat | Key string

fun child :: "heap \<Rightarrow> jsval \<Rightarrow> step \<Rightarrow> jsval option" where
  "child h (VRef a) (Index k) =
     (case h a of
        HArray elems \<Rightarrow>
          (if k < length (data_values (take 100 elems))
           then Some (data_values (take 100 elems) ! k) else None)
      | _ \<Rightarrow> None)"
| "child h (VRef a) (Key s) =
     (case h a of
        HObject props \<Rightarrow>
          (case map_of (take 100 props) s of Some (Data v) \<Rightarrow> Some v | _ \<Rightarrow> None)
      | _ \<Rightarrow> None)"
| "child h v st = None"

fun descend :: "heap \<Rightarrow> jsval \<Rightarrow> step list \<Rightarrow> jsval option" where
  "descend h v [] = Some v"
| "descend h v (st # p) = (case child h v st of None \<Rightarrow> None | Some w \<Rightarrow> descend h w p)"

fun json_child :: "json \<Rightarrow> step \<Rightarrow> json option" where
  "json_child (JArr ys) (Index k) = (if k < length ys then Some (ys ! k) else None)"
| "json_child (JObj kvs) (Key s) = map_of kvs s"
| "json_child j st = None"

fun json_descend :: "json \<Rightarrow> step list \<Rightarrow> json option" where
  "json_descend j [] = Some j"
| "json_descend j (st # p) = (case json_child j st of None \<Rightarrow> None | Some w \<Rightarrow> json_descend w p)"

section \<open>Tool ids\<close>

text \<open>\<open>s.replace(/c/g, d)\<close> for a one-character pattern \<open>c\<close> and replacement \<open>d\<close>.\<close>

definition replace_all :: "char \<Rightarrow> char \<Rightarrow> string \<Rightarrow> string" where
  "replace_all c d s = map (\<lambda>x. if x = c then d else x) s"

section \<open>Messages and the host's command registry\<close>

text \<open>
  Messages and log data are object literals; they are kept as \<open>json\<close> objects with the
  fields in the order the source writes them. \<open>get_field\<close> is property access on a parsed
  message; \<open>or_else\<close> is the operator \<open>||\<close>.
\<close>

definition get_field :: "string \<Rightarrow> json \<Rightarrow> json" where
  "get_field k m =
     (case m of
        JObj kvs \<Rightarrow> (case map_of kvs k of Some v \<Rightarrow> v | None \<Rightarrow> JUndefined)
      | _ \<Rightarrow> JUndefined)"

definition falsy :: "json \<Rightarrow> bool" where
  "falsy v = (v = JNull \<or> v = JUndefined \<or> v = JBool False \<or> v = JNum 0 \<or> v = JStr [])"

definition or_else :: "json \<Rightarrow> json \<Rightarrow> json" where
  "or_else a b = (if falsy a then b else a)"

text \<open>
  The registry is an external collaborator: the queries the source makes, each of the
  descriptive ones possibly throwing for a command.
\<close>

record commands =
  listCommands :: "string list"
  hasCommand :: "string \<Rightarrow> bool"
  isEnabled :: "string \<Rightarrow> exn + bool"
  label :: "string \<Rightarrow> exn + string"
  caption :: "string \<Rightarrow> exn + string"
  usage :: "string \<Rightarrow> exn + string"

text \<open>
  What \<open>await this.app.commands.execute(id, parameters)\<close> settles to: a result value in
  the heap it lives in, or a failure, given by \<open>String(error)\<close>.
\<close>

datatype outcome = Resolved heap jsval | Rejected string

section \<open>The connection manager\<close>

datatype readyState = CONNECTING | OPEN | CLOSING | CLOSED

datatype direction = sent | received

text \<open>
  An invocation suspended at its \<open>await\<close>: the command id and parameters given to
  \<open>execute\<close>, and for a peer's request also the tool id and execution id that the
  response will carry.
\<close>

datatype invocation =
    LocalCall string json
  | ServerCall string json string json

text \<open>
  \<open>ws\<close>: the field \<open>this.ws\<close>, \<open>None\<close> for \<open>null\<close>, else the identity of the socket it
  refers to and that socket's \<open>readyState\<close>. \<open>created\<close>: how many \<open>WebSocket\<close> objects
  \<open>connect()\<close> has constructed (the next identity). \<open>timers\<close>: reconnect callbacks
  scheduled by \<open>setTimeout\<close> and not yet run. \<open>frames\<close>: \<open>requestAnimationFrame\<close>
  callbacks not yet run. \<open>wire\<close>: the messages handed to \<open>ws.send\<close>, with the socket.
  \<open>messages\<close> and \<open>tools\<close>: what the widget was given by \<open>addMessage\<close> and \<open>setTools\<close>.
  \<open>console_error\<close>: the lines written by \<open>console.error\<close>; the two lines of the
  \<open>catch\<close> blocks are kept without the interpolated tool id and error object.
\<close>

record manager =
  ws :: "(nat \<times> readyState) option"
  created :: nat
  reconnectAttempts :: nat
  timers :: nat
  frames :: nat
  pending :: "invocation list"
  wire :: "(nat \<times> json) list"
  messages :: "(direction \<times> json \<times> json) list"
  tools :: "json list"
  console_error :: "string list"

definition maxReconnectAttempts :: nat where
  "maxReconnectAttempts = 5"

definition reconnectDelay :: nat where
  "reconnectDelay = 2000"

definition new_manager :: manager where
  "new_manager =
     \<lparr>ws = None, created = 0, reconnectAttempts = 0, timers = 0, frames = 0, pending = [],
      wire = [], messages = [], tools = [], console_error = []\<rparr>"

definition addMessage :: "manager \<Rightarrow> direction \<Rightarrow> json \<Rightarrow> json \<Rightarrow> manager" where
  "addMessage st dir ty data = st\<lparr>messages := messages st @ [(dir, ty, data)]\<rparr>"

definition sendMessage :: "manager \<Rightarrow> json \<Rightarrow> manager" where
  "sendMessage st message =
     (case ws st of
        Some (i, OPEN) \<Rightarrow>
          addMessage (st\<lparr>wire := wire st @ [(i, message)]\<rparr>) sent
            (or_else (get_field ''type'' message) (JStr ''unknown'')) message
      | _ \<Rightarrow> st\<lparr>console_error := console_error st @ [''WebSocket is not connected'']\<rparr>)"

definition connect :: "manager \<Rightarrow> manager" where
  "connect st = st\<lparr>ws := Some (created st, CONNECTING), created := Suc (created st)\<rparr>"

definition attemptReconnect :: "manager \<Rightarrow> manager" where
  "attemptReconnect st =
     (if reconnectAttempts st < maxReconnectAttempts
      then st\<lparr>reconnectAttempts := Suc (reconnectAttempts st), timers := Suc (timers st)\<rparr>
      else st\<lparr>console_error := console_error st @ [''Max reconnection attempts reached'']\<rparr>)"

definition close :: "manager \<Rightarrow> manager" where
  "close st = (case ws st of Some sock \<Rightarrow> st\<lparr>ws := None\<rparr> | None \<Rightarrow> st)"

definition getCommandParameters :: "string \<Rightarrow> json" where
  "getCommandParameters commandId =
     JObj [(''type'', JStr ''object''), (''properties'', JObj []),
           (''description'', JStr ''Command arguments (if any)'')]"

fun build_tools :: "commands \<Rightarrow> string list \<Rightarrow> json list" where
  "build_tools c [] = []"
| "build_tools c (commandId # rest) =
     (case (isEnabled c commandId, label c commandId, caption c commandId, usage c commandId) of
        (Inr en, Inr la, Inr ca, Inr us) \<Rightarrow>
          (let toolId = replace_all CHR '':'' CHR '' '' commandId in
           JObj [(''id'', JStr toolId),
                 (''label'', or_else (JStr la) (JStr toolId)),
                 (''caption'', or_else (JStr ca) (JStr [])),
                 (''usage'', or_else (JStr us) (JStr [])),
                 (''isEnabled'', JBool en),
                 (''parameters'', getCommandParameters commandId)]
           # build_tools c rest)
      | _ \<Rightarrow> build_tools c rest)"

definition registerTools :: "commands \<Rightarrow> manager \<Rightarrow> manager" where
  "registerTools c st =
     (let ts = build_tools c (listCommands c)
      in sendMessage (st\<lparr>tools := ts\<rparr>)
           (JObj [(''type'', JStr ''register_tools''), (''tools'', JArr ts)]))"

subsection \<open>Local execution\<close>

definition applyToolLocal :: "commands \<Rightarrow> manager \<Rightarrow> string \<Rightarrow> json \<Rightarrow> manager" where
  "applyToolLocal c st toolId parameters =
     (if hasCommand c toolId
      then st\<lparr>pending := pending st @ [LocalCall toolId parameters]\<rparr>
      else addMessage
             (st\<lparr>console_error := console_error st @ [''Command not found: '' @ toolId]\<rparr>)
             sent (JStr ''local_execute'')
             (JObj [(''tool_id'', JStr toolId), (''parameters'', parameters),
                    (''error'', JStr (''Command not found: '' @ toolId)),
                    (''success'', JBool False)]))"

definition applyToolLocal_failed :: "manager \<Rightarrow> string \<Rightarrow> json \<Rightarrow> string \<Rightarrow> manager" where
  "applyToolLocal_failed st toolId parameters err =
     addMessage
       (st\<lparr>console_error := console_error st @ [''Error executing tool locally:'']\<rparr>)
       sent (JStr ''local_execute'')
       (JObj [(''tool_id'', JStr toolId), (''parameters'', parameters),
              (''error'', JStr err), (''success'', JBool False)])"

definition applyToolLocal_settled :: "manager \<Rightarrow> string \<Rightarrow> json \<Rightarrow> outcome \<Rightarrow> manager" where
  "applyToolLocal_settled st toolId parameters out =
     (case out of
        Rejected err \<Rightarrow> applyToolLocal_failed st toolId parameters err
      | Resolved h result \<Rightarrow>
          (case serialize h result 2 of
             Inl (Thrown err) \<Rightarrow> applyToolLocal_failed st toolId parameters err
           | Inr sanitizedResult \<Rightarrow>
               addMessage st sent (JStr ''local_execute'')
                 (JObj [(''tool_id'', JStr toolId), (''parameters'', parameters),
                        (''result'', sanitizedResult), (''success'', JBool True)])))"

subsection \<open>Remote execution request\<close>

definition applyToolRemote :: "manager \<Rightarrow> string \<Rightarrow> json \<Rightarrow> manager" where
  "applyToolRemote st toolId parameters =
     sendMessage st
       (JObj [(''type'', JStr ''apply_tool''), (''tool_id'', JStr toolId),
              (''parameters'', parameters)])"

subsection \<open>Peer-initiated execution\<close>

definition applyToolFromServer ::
  "commands \<Rightarrow> manager \<Rightarrow> string \<Rightarrow> json \<Rightarrow> json \<Rightarrow> manager" where
  "applyToolFromServer c st toolId parameters executionId =
     (let commandId = replace_all CHR '' '' CHR '':'' toolId in
      if hasCommand c commandId
      then st\<lparr>pending := pending st @ [ServerCall commandId parameters toolId executionId]\<rparr>
      else sendMessage
             (st\<lparr>console_error := console_error st @ [''Command not found: '' @ commandId]\<rparr>)
             (JObj [(''type'', JStr ''tool_result''), (''tool_id'', JStr toolId),
                    (''execution_id'', executionId), (''success'', JBool False),
                    (''error'', JStr (''Command not found: '' @ commandId))]))"

definition applyToolFromServer_failed :: "manager \<Rightarrow> json \<Rightarrow> json \<Rightarrow> string \<Rightarrow> manager" where
  "applyToolFromServer_failed st toolId executionId err =
     sendMessage
       (st\<lparr>console_error := console_error st @ [''Error applying tool:'']\<rparr>)
       (JObj [(''type'', JStr ''tool_result''), (''tool_id'', toolId),
              (''execution_id'', executionId), (''success'', JBool False),
              (''error'', JStr err)])"

definition applyToolFromServer_settled :: "manager \<Rightarrow> string \<Rightarrow> json \<Rightarrow> outcome \<Rightarrow> manager" where
  "applyToolFromServer_settled st toolId executionId out =
     (case out of
        Rejected err \<Rightarrow> applyToolFromServer_failed st (JStr toolId) executionId err
      | Resolved h result \<Rightarrow>
          (case serialize h result 2 of
             Inl (Thrown err) \<Rightarrow> applyToolFromServer_failed st (JStr toolId) executionId err
           | Inr sanitizedResult \<Rightarrow>
               sendMessage st
                 (JObj [(''type'', JStr ''tool_result''), (''tool_id'', JStr toolId),
                        (''execution_id'', executionId), (''success'', JBool True),
                        (''result'', sanitizedResult)])))"

subsection \<open>Inbound data\<close>

text \<open>
  \<open>data\<close> is the frame after \<open>JSON.parse\<close>: \<open>None\<close> when parsing throws. Reading
  \<open>message.type\<close> of \<open>null\<close> throws as well; both end in the handler's \<open>catch\<close>. A
  \<open>tool_id\<close> that is not a string makes \<open>toolId.replace\<close> throw inside
  \<open>applyToolFromServer\<close>, whose own \<open>catch\<close> reports it (the engine's wording of that
  error is not modelled beyond its name).
\<close>

definition handleMessage :: "commands \<Rightarrow> manager \<Rightarrow> json option \<Rightarrow> manager" where
  "handleMessage c st data =
     (case data of
        None \<Rightarrow> st\<lparr>console_error := console_error st @ [''Error handling message:'']\<rparr>
      | Some message \<Rightarrow>
          if message = JNull \<or> message = JUndefined
          then st\<lparr>console_error := console_error st @ [''Error handling message:'']\<rparr>
          else
            (let st1 = addMessage st received
                         (or_else (get_field ''type'' message) (JStr ''unknown'')) message
             in if get_field ''type'' message = JStr ''apply_tool''
                then (case get_field ''tool_id'' message of
                        JStr toolId \<Rightarrow>
                          applyToolFromServer c st1 toolId
                            (or_else (get_field ''parameters'' message) (JObj []))
                            (get_field ''execution_id'' message)
                      | other \<Rightarrow>
                          applyToolFromServer_failed st1 other
                            (get_field ''execution_id'' message) ''TypeError'')
                else st1))"

subsection \<open>Events\<close>

text \<open>
  One event loop: each handler runs to completion. The environment decides which event
  comes next: a socket opens, delivers a frame, reports an error or closes; a scheduled
  reconnect or animation frame comes due; a command invocation settles; the host calls
  \<open>close()\<close>; the panel asks for a local or a remote execution.
\<close>

datatype event =
    SocketOpen nat
  | SocketMessage nat "json option"
  | SocketError nat
  | SocketClose nat
  | TimerFires
  | AnimationFrame
  | Settles nat outcome
  | CallClose
  | ExecuteLocal string json
  | ExecuteRemote string json

text \<open>The browser updates a socket's \<open>readyState\<close> before it runs the handler.\<close>

definition set_readyState :: "manager \<Rightarrow> nat \<Rightarrow> readyState \<Rightarrow> manager" where
  "set_readyState st i r =
     (case ws st of
        Some (j, r') \<Rightarrow> if j = i then st\<lparr>ws := Some (i, r)\<rparr> else st
      | None \<Rightarrow> st)"

definition onopen :: "manager \<Rightarrow> manager" where
  "onopen st = st\<lparr>reconnectAttempts := 0, frames := Suc (frames st)\<rparr>"

definition onerror :: "manager \<Rightarrow> manager" where
  "onerror st = st\<lparr>console_error := console_error st @ [''WebSocket error:'']\<rparr>"

definition onclose :: "manager \<Rightarrow> manager" where
  "onclose st = attemptReconnect st"

definition settle :: "manager \<Rightarrow> nat \<Rightarrow> outcome \<Rightarrow> manager" where
  "settle st k out =
     (if k < length (pending st)
      then (let st1 = st\<lparr>pending := take k (pending st) @ drop (Suc k) (pending st)\<rparr>
            in case pending st ! k of
                 LocalCall toolId parameters \<Rightarrow> applyToolLocal_settled st1 toolId parameters out
               | ServerCall commandId parameters toolId executionId \<Rightarrow>
                   applyToolFromServer_settled st1 toolId executionId out)
      else st)"

fun dispatch :: "commands \<Rightarrow> manager \<Rightarrow> event \<Rightarrow> manager" where
  "dispatch c st (SocketOpen i) = onopen (set_readyState st i OPEN)"
| "dispatch c st (SocketMessage i data) = handleMessage c st data"
| "dispatch c st (SocketError i) = onerror st"
| "dispatch c st (SocketClose i) = onclose (set_readyState st i CLOSED)"
| "dispatch c st TimerFires =
     (if 0 < timers st then connect (st\<lparr>timers := timers st - 1\<rparr>) else st)"
| "dispatch c st AnimationFrame =
     (if 0 < frames st then registerTools c (st\<lparr>frames := frames st - 1\<rparr>) else st)"
| "dispatch c st (Settles k out) = settle st k out"
| "dispatch c st CallClose = close st"
| "dispatch c st (ExecuteLocal toolId parameters) = applyToolLocal c st toolId parameters"
| "dispatch c st (ExecuteRemote toolId parameters) = applyToolRemote st toolId parameters"

fun run :: "commands \<Rightarrow> manager \<Rightarrow> event list \<Rightarrow> manager" where
  "run c st [] = st"
| "run c st (e # es) = run c (dispatch c st e) es"


section \<open>Inputs used below\<close>

text \<open>A host with the two commands \<open>notebook:run\<close> and \<open>notebook:save\<close>, both enabled.\<close>

definition notebook_host :: commands where
  "notebook_host =
     \<lparr>listCommands = [''notebook:run'', ''notebook:save''],
      hasCommand = (\<lambda>i. i = ''notebook:run'' \<or> i = ''notebook:save''),
      isEnabled = (\<lambda>i. Inr True),
      label = (\<lambda>i. Inr []),
      caption = (\<lambda>i. Inr []),
      usage = (\<lambda>i. Inr [])\<rparr>"

text \<open>
  \<open>shared = {x: 1}; root = {a: shared, b: shared}\<close>: \<open>root\<close> at address 0, \<open>shared\<close>
  at every other address. No object is reachable from itself.
\<close>

definition shared_heap :: heap where
  "shared_heap =
     (\<lambda>a. if a = 0 then HObject [(''a'', Data (VRef 1)), (''b'', Data (VRef 1))]
          else HObject [(''x'', Data (VNum 1))])"


text \<open>\<open>o = {self: o}\<close>: an object that contains itself, at every address.\<close>

definition cyclic_object_heap :: heap where
  "cyclic_object_heap = (\<lambda>a. HObject [(''self'', Data (VRef a))])"

text \<open>
  \<open>{child: [{child: [{x: 1}, 1]}, 's'], n: 7}\<close>: objects at depths 0 and 2, arrays at
  depths 1 and 3, and the object \<open>{x: 1}\<close> and the number 1 at depth 4. Addresses 0 to 3
  hold the two objects and two arrays, every other address \<open>{x: 1}\<close>.
\<close>

definition nested_heap :: heap where
  "nested_heap =
     (\<lambda>a. if a = 0 then HObject [(''child'', Data (VRef 1)), (''n'', Data (VNum 7))]
          else if a = 1 then HArray [Data (VRef 2), Data (VStr ''s'')]
          else if a = 2 then HObject [(''child'', Data (VRef 3))]
          else if a = 3 then HArray [Data (VRef 4), Data (VNum 1)]
          else HObject [(''x'', Data (VNum 1))])"

text \<open>
  Values on which a read outside every \<open>try\<close> throws: a \<open>Proxy\<close> whose \<open>ownKeys\<close> trap
  throws \<open>new Error('boom')\<close>, a revoked \<open>Proxy\<close>, and the array with one element whose
  getter throws that error; and the object \<open>{k: <the same getter>}\<close>, whose read is inside
  the \<open>try\<close>. The last heap holds the array \<open>[p]\<close> at address 0 and the first of these
  proxies elsewhere.
\<close>

definition throwing_keys_heap :: heap where
  "throwing_keys_heap = (\<lambda>a. HObjectProxyThrows ''Error: boom'')"

definition revoked_heap :: heap where
  "revoked_heap = (\<lambda>a. HRevokedProxy ''TypeError: revoked'')"

definition accessor_array_heap :: heap where
  "accessor_array_heap = (\<lambda>a. HArray [GetterThrows ''Error: boom''])"

definition accessor_object_heap :: heap where
  "accessor_object_heap = (\<lambda>a. HObject [(''k'', GetterThrows ''Error: boom'')])"

definition proxy_in_array_heap :: heap where
  "proxy_in_array_heap = (\<lambda>a. if a = 0 then HArray [Data (VRef 1)] else HObjectProxyThrows ''Error: boom'')"


text \<open>\<open>{__proto__: 1, a: 2}\<close> with \<open>__proto__\<close> an own key (as from \<open>JSON.parse\<close>).\<close>

definition proto_key_heap :: heap where
  "proto_key_heap = (\<lambda>a. HObject [(''__proto__'', Data (VNum 1)), (''a'', Data (VNum 2))])"

fun is_SocketOpen :: "event \<Rightarrow> bool" where
  "is_SocketOpen (SocketOpen i) = True"
| "is_SocketOpen _ = False"

fun is_SocketClose :: "event \<Rightarrow> bool" where
  "is_SocketClose (SocketClose i) = True"
| "is_SocketClose _ = False"

text \<open>
  Six closes with no open in between; after each, the scheduled reconnect (if any) comes
  due before the next socket closes.
\<close>

definition six_failures :: "event list" where
  "six_failures =
     [SocketClose 0, TimerFires, SocketClose 1, TimerFires, SocketClose 2, TimerFires,
      SocketClose 3, TimerFires, SocketClose 4, TimerFires, SocketClose 5, TimerFires]"

text \<open>
  Reconnect attempts so far: every \<open>connect()\<close> constructs one socket, and every
  scheduled reconnect is either still pending or has run \<open>connect()\<close>.
\<close>

definition attempts_made :: "manager \<Rightarrow> nat" where
  "attempts_made st = created st + timers st"


section \<open>Termination of the serializer\<close>

text \<open>
  Every call of \<open>safeSerialize\<close>, on cyclic heaps as well, is in the domain on which its
  recursion is well-founded: each nested call is one level deeper, and no call goes
  deeper than one level past \<open>maxDepth\<close>.
\<close>

lemma safeSerialize_dom_total: "safeSerialize_map_items_for_keys_dom x"
proof -
  have "All safeSerialize_map_items_for_keys_dom"
    by (relation "inv_image (less_than <*lex*> less_than)
        (\<lambda>x. case x of
           Inl (h, obj, m, d, s) \<Rightarrow> (nat (m + 2 - d), 0)
         | Inr (Inl (h, xs, m, d, s)) \<Rightarrow> (nat (m + 1 - d), Suc (length xs))
         | Inr (Inr (h, ps, m, d, r, s)) \<Rightarrow> (nat (m + 1 - d), Suc (length ps)))")
     (auto split: if_splits)
  then show ?thesis by blast
qed

section \<open>Exceptions that leave the serializer\<close>

text \<open>
  C7. \<open>Object.keys\<close>, \<open>Array.isArray\<close> and \<open>slice\<close> stand outside every \<open>try\<close>. For a
  \<open>Proxy\<close> whose \<open>ownKeys\<close> trap throws, for a revoked \<open>Proxy\<close> and for an array with an
  element whose getter throws, the call ends in the exception instead of a value; so
  does the call on an array that holds such a proxy. The same getter behind a key of an
  object is read inside the \<open>try\<close> of the key loop and yields
  \<open>'<serialization error>'\<close>. At the call site the exception turns the result of a
  command that succeeded into a failure response.
\<close>

theorem safeSerialize_throws:
  "serialize throwing_keys_heap (VRef 0) 3 = Inl (Thrown ''Error: boom'')
   \<and> serialize revoked_heap (VRef 0) 3 = Inl (Thrown ''TypeError: revoked'')
   \<and> serialize accessor_array_heap (VRef 0) 3 = Inl (Thrown ''Error: boom'')
   \<and> serialize proxy_in_array_heap (VRef 0) 3 = Inl (Thrown ''Error: boom'')
   \<and> serialize accessor_object_heap (VRef 0) 3 =
       Inr (JObj [(''k'', JStr ''<serialization error>'')])
   \<and> wire (applyToolFromServer_settled (new_manager\<lparr>ws := Some (0, OPEN)\<rparr>)
             ''notebook run'' (JStr ''e1'') (Resolved throwing_keys_heap (VRef 0))) =
       [(0, JObj [(''type'', JStr ''tool_result''), (''tool_id'', JStr ''notebook run''),
                  (''execution_id'', JStr ''e1''), (''success'', JBool False),
                  (''error'', JStr ''Error: boom'')])]"
  by (simp add: serialize_def throwing_keys_heap_def revoked_heap_def accessor_array_heap_def
        proxy_in_array_heap_def accessor_object_heap_def slice_0_100_def read_property_def
        set_property_def applyToolFromServer_settled_def applyToolFromServer_failed_def
        sendMessage_def addMessage_def new_manager_def)

section \<open>Depth limit\<close>

lemma read_elements_data:
  "list_all is_Data xs \<Longrightarrow> read_elements xs = Inr (data_values xs)"
proof (induction xs)
  case Nil
  then show ?case by simp
next
  case (Cons sl xs)
  then show ?case by (cases sl) (simp_all add: read_property_def)
qed

lemma assign_fresh:
  "key \<notin> fst ` set result \<Longrightarrow> assign result key v = result @ [(key, v)]"
  by (induction result) auto

lemma map_items_real:
  assumes P: "\<And>v seen. ordinary h n v \<Longrightarrow> distinct (objects_met h n v) \<Longrightarrow>
                set (objects_met h n v) \<inter> seen = {} \<Longrightarrow>
                safeSerialize h v m (d + 1) seen =
                  (Inr (real_structure h n v), seen \<union> set (objects_met h n v))"
  shows "list_all (ordinary h n) items \<Longrightarrow>
         distinct (concat (map (objects_met h n) items)) \<Longrightarrow>
         set (concat (map (objects_met h n) items)) \<inter> seen = {} \<Longrightarrow>
         map_items h items m d seen =
           (Inr (map (real_structure h n) items),
            seen \<union> set (concat (map (objects_met h n) items)))"
proof (induction items arbitrary: seen)
  case Nil
  then show ?case by simp
next
  case (Cons item rest)
  have 1: "safeSerialize h item m (d + 1) seen =
             (Inr (real_structure h n item), seen \<union> set (objects_met h n item))"
    using Cons.prems by (intro P) auto
  have 2: "map_items h rest m d (seen \<union> set (objects_met h n item)) =
             (Inr (map (real_structure h n) rest),
              (seen \<union> set (objects_met h n item))
                \<union> set (concat (map (objects_met h n) rest)))"
    using Cons.prems by (intro Cons.IH) auto
  show ?case using 1 2 by (simp add: Un_assoc)
qed

lemma for_keys_real:
  assumes P: "\<And>v seen. ordinary h n v \<Longrightarrow> distinct (objects_met h n v) \<Longrightarrow>
                set (objects_met h n v) \<inter> seen = {} \<Longrightarrow>
                safeSerialize h v m (d + 1) seen =
                  (Inr (real_structure h n v), seen \<union> set (objects_met h n v))"
  shows "distinct (map fst result @ map fst props) \<Longrightarrow>
         list_all (\<lambda>key. key \<noteq> ''__proto__'') (map fst props) \<Longrightarrow>
         list_all (ordinary h n) (data_values (map snd props)) \<Longrightarrow>
         distinct (concat (map (objects_met h n) (data_values (map snd props)))) \<Longrightarrow>
         set (concat (map (objects_met h n) (data_values (map snd props)))) \<inter> seen = {} \<Longrightarrow>
         for_keys h props m d result seen =
           (result @ map (\<lambda>(key, sl). (key, case sl of
                                         Data v \<Rightarrow> real_structure h n v
                                       | GetterThrows err \<Rightarrow> JStr ''<serialization error>'')) props,
            seen \<union> set (concat (map (objects_met h n) (data_values (map snd props)))))"
proof (induction props arbitrary: result seen)
  case Nil
  then show ?case by simp
next
  case (Cons p rest)
  obtain key sl where p: "p = (key, sl)" by (cases p)
  have fresh: "key \<notin> fst ` set result" and np: "key \<noteq> ''__proto__''"
    using Cons.prems(1,2) by (auto simp: p)
  have sp: "\<And>y. set_property result key y = result @ [(key, y)]"
    using fresh np by (simp add: set_property_def assign_fresh)
  have d': "\<And>y. distinct (map fst (result @ [(key, y)]) @ map fst rest)"
    using Cons.prems(1) by (auto simp: p)
  show ?case
  proof (cases sl)
    case (GetterThrows err)
    have "for_keys h rest m d (result @ [(key, JStr ''<serialization error>'')]) seen =
            ((result @ [(key, JStr ''<serialization error>'')])
               @ map (\<lambda>(key, sl). (key, case sl of
                                         Data v \<Rightarrow> real_structure h n v
                                       | GetterThrows err \<Rightarrow> JStr ''<serialization error>'')) rest,
             seen \<union> set (concat (map (objects_met h n) (data_values (map snd rest)))))"
      using Cons.prems d' by (intro Cons.IH) (auto simp: p GetterThrows)
    then show ?thesis by (simp add: p GetterThrows read_property_def sp)
  next
    case (Data v)
    have 1: "safeSerialize h v m (d + 1) seen =
               (Inr (real_structure h n v), seen \<union> set (objects_met h n v))"
      using Cons.prems by (intro P) (auto simp: p Data)
    have "for_keys h rest m d (result @ [(key, real_structure h n v)])
              (seen \<union> set (objects_met h n v)) =
            ((result @ [(key, real_structure h n v)])
               @ map (\<lambda>(key, sl). (key, case sl of
                                         Data v \<Rightarrow> real_structure h n v
                                       | GetterThrows err \<Rightarrow> JStr ''<serialization error>'')) rest,
             (seen \<union> set (objects_met h n v))
               \<union> set (concat (map (objects_met h n) (data_values (map snd rest)))))"
      using Cons.prems d' by (intro Cons.IH) (auto simp: p Data)
    then show ?thesis using 1 by (simp add: p Data read_property_def sp Un_assoc)
  qed
qed

text \<open>
  With \<open>n\<close> levels left, a call on a value whose traversal is ordinary and comes to no
  object twice, and to none already in \<open>seen\<close>, returns the real structure and adds
  exactly the objects it came to.
\<close>

lemma safeSerialize_real:
  "ordinary h n v \<Longrightarrow> distinct (objects_met h n v) \<Longrightarrow>
   set (objects_met h n v) \<inter> seen = {} \<Longrightarrow> nat (m + 1 - d) = n \<Longrightarrow>
   safeSerialize h v m d seen = (Inr (real_structure h n v), seen \<union> set (objects_met h n v))"
proof (induction n arbitrary: v d seen)
  case 0
  then have "d > m" by simp
  then show ?case
    by (cases v) simp_all
next
  case (Suc n)
  then have d: "\<not> d > m" and n: "nat (m + 1 - (d + 1)) = n" by simp_all
  have P: "\<And>v seen. ordinary h n v \<Longrightarrow> distinct (objects_met h n v) \<Longrightarrow>
                set (objects_met h n v) \<inter> seen = {} \<Longrightarrow>
                safeSerialize h v m (d + 1) seen =
                  (Inr (real_structure h n v), seen \<union> set (objects_met h n v))"
    using Suc.IH n by blast
  show ?case
  proof (cases v)
    case (VRef a)
    show ?thesis
    proof (cases "h a")
      case (HArray elems)
      have r: "slice_0_100 elems = Inr (data_values (take 100 elems))"
        using Suc.prems(1) by (simp add: VRef HArray slice_0_100_def read_elements_data)
      have "map_items h (data_values (take 100 elems)) m d seen =
              (Inr (map (real_structure h n) (data_values (take 100 elems))),
               seen \<union> set (concat (map (objects_met h n) (data_values (take 100 elems)))))"
        using Suc.prems by (intro map_items_real P) (auto simp: VRef HArray)
      then show ?thesis using d r by (simp add: VRef HArray)
    next
      case (HObject props)
      have a: "a \<notin> seen" using Suc.prems(3) by (simp add: VRef HObject)
      have "for_keys h (take 100 props) m d [] (insert a seen) =
              ([] @ map (\<lambda>(key, sl). (key, case sl of
                                         Data v \<Rightarrow> real_structure h n v
                                       | GetterThrows err \<Rightarrow> JStr ''<serialization error>''))
                      (take 100 props),
               insert a seen
                 \<union> set (concat (map (objects_met h n) (data_values (map snd (take 100 props))))))"
        using Suc.prems by (intro for_keys_real P) (auto simp: VRef HObject)
      then show ?thesis using d a by (simp add: VRef HObject)
    next
      case (HFunction f)
      then show ?thesis using d
        by (cases f) (simp_all add: VRef fallback_def String_of_function_def)
    qed (use Suc.prems in \<open>simp_all add: VRef\<close>)
  qed (use d in \<open>simp_all add: fallback_def String_of_symbol_def String_of_bigint_def\<close>)
qed

text \<open>
  Each position of the real structure holds the real structure of the value at that
  position of the input, with as many levels less as the position is deep.
\<close>

lemma real_structure_at_position:
  "descend h x p = Some v \<Longrightarrow> json_descend (real_structure h n x) p = Some j \<Longrightarrow>
   length p \<le> n \<Longrightarrow> j = real_structure h (n - length p) v"
proof (induction p arbitrary: x n j)
  case Nil
  then show ?case by simp
next
  case (Cons st p)
  then obtain n' where n: "n = Suc n'" by (cases n) auto
  from Cons.prems(1) obtain w where w: "child h x st = Some w" and dw: "descend h w p = Some v"
    by (auto split: option.splits)
  have "json_child (real_structure h n x) st = Some (real_structure h n' w)"
  proof (cases x)
    case (VRef a)
    show ?thesis
    proof (cases st)
      case (Index k)
      then show ?thesis using w
        by (auto simp: VRef n split: hobj.splits if_splits)
    next
      case (Key s)
      then show ?thesis using w
        by (auto simp: VRef n map_of_map split: hobj.splits option.splits slot.splits)
    qed
  qed (use w in simp_all)
  then have "json_descend (real_structure h n' w) p = Some j"
    using Cons.prems(2) by simp
  then have "j = real_structure h (n' - length p) v"
    using Cons.IH[OF dw] Cons.prems(3) n by simp
  then show ?case by (simp add: n)
qed

text \<open>
  C8, where it fails. In \<open>o = {self: o}\<close> the object \<open>o\<close> lies at depth 1 as well; there it
  is replaced by \<open>'<circular reference>'\<close>, not serialized as its structure, which is
  \<open>{self: {self: {self: {self: '<max depth reached>'}}}}\<close>. And of
  \<open>{__proto__: 1, a: 2}\<close>, an object at depth 0, the output keeps the key \<open>a\<close> only.
\<close>

theorem depth_limit_three_counterexample:
  "serialize cyclic_object_heap (VRef 0) 3 =
     Inr (JObj [(''self'', JStr ''<circular reference>'')])
   \<and> real_structure cyclic_object_heap 4 (VRef 0) =
     JObj [(''self'', JObj [(''self'', JObj [(''self'', JObj [(''self'',
       JStr ''<max depth reached>'')])])])]
   \<and> serialize cyclic_object_heap (VRef 0) 3 \<noteq> Inr (real_structure cyclic_object_heap 4 (VRef 0))
   \<and> serialize proto_key_heap (VRef 0) 3 = Inr (JObj [(''a'', JNum 2)])
   \<and> real_structure proto_key_heap 4 (VRef 0) = JObj [(''__proto__'', JNum 1), (''a'', JNum 2)]"
  by (simp add: serialize_def cyclic_object_heap_def proto_key_heap_def read_property_def
        set_property_def eval_nat_numeral)

text \<open>
  C8, as it holds. With \<open>maxDepth = 3\<close>, every value other than a primitive met at
  recursion depth 4 is replaced by \<open>'<max depth reached>'\<close>. When the traversal from the
  top-level value, cut at depth 4 and at 100 elements and keys, comes to no object
  twice, to nothing that throws outside a \<open>try\<close> and to no key \<open>__proto__\<close>, the output
  is the real structure of the value: at every position down to depth 3 an array is the
  array of its first 100 elements and an object the object of its first 100 keys, each
  one level further down, and at every position at depth 4 a value other than a
  primitive is the sentinel.
\<close>

theorem depth_limit_three:
  "(\<not> is_primitive v \<longrightarrow>
      safeSerialize h v 3 4 seen = (Inr (JStr ''<max depth reached>''), seen))
   \<and> (ordinary h 4 x \<and> distinct (objects_met h 4 x) \<longrightarrow>
        serialize h x 3 = Inr (real_structure h 4 x))
   \<and> (descend h x p = Some v \<and> json_descend (real_structure h 4 x) p = Some j
        \<and> length p \<le> 4 \<longrightarrow> j = real_structure h (4 - length p) v)
   \<and> (\<not> is_primitive v \<longrightarrow> real_structure h 0 v = JStr ''<max depth reached>'')"
proof (intro conjI impI)
  assume "\<not> is_primitive v"
  then show "safeSerialize h v 3 4 seen = (Inr (JStr ''<max depth reached>''), seen)"
    by (cases v) simp_all
next
  assume "ordinary h 4 x \<and> distinct (objects_met h 4 x)"
  then show "serialize h x 3 = Inr (real_structure h 4 x)"
    using safeSerialize_real[of h 4 x "{}" 3 0] by (simp add: serialize_def)
next
  assume "descend h x p = Some v \<and> json_descend (real_structure h 4 x) p = Some j
        \<and> length p \<le> 4"
  then show "j = real_structure h (4 - length p) v"
    using real_structure_at_position[of h x p v 4 j] by simp
next
  assume "\<not> is_primitive v"
  then show "real_structure h 0 v = JStr ''<max depth reached>''"
    by (cases v) simp_all
qed

text \<open>
  \<open>{child: [{child: [{x: 1}, 1]}, 's'], n: 7}\<close>: the traversal comes to the objects at
  depths 0 and 2, once each. The output keeps both objects and both arrays; at depth 4
  the object \<open>{x: 1}\<close> is the sentinel and the number 1 is itself.
\<close>

theorem depth_limit_three_witness:
  "ordinary nested_heap 4 (VRef 0) \<and> distinct (objects_met nested_heap 4 (VRef 0))
   \<and> objects_met nested_heap 4 (VRef 0) = [0, 2]
   \<and> serialize nested_heap (VRef 0) 3 =
       Inr (JObj [(''child'', JArr [JObj [(''child'', JArr [JStr ''<max depth reached>'', JNum 1])],
                                    JStr ''s'']),
                  (''n'', JNum 7)])
   \<and> descend nested_heap (VRef 0) [Key ''child'', Index 0, Key ''child'', Index 0] = Some (VRef 4)
   \<and> \<not> is_primitive (VRef 4)
   \<and> json_descend (real_structure nested_heap 4 (VRef 0))
        [Key ''child'', Index 0, Key ''child'', Index 0] = Some (JStr ''<max depth reached>'')
   \<and> descend nested_heap (VRef 0) [Key ''child'', Index 0, Key ''child''] = Some (VRef 3)
   \<and> json_descend (real_structure nested_heap 4 (VRef 0)) [Key ''child'', Index 0, Key ''child''] =
        Some (JArr [JStr ''<max depth reached>'', JNum 1])
   \<and> safeSerialize nested_heap (VRef 4) 3 4 {0, 2} = (Inr (JStr ''<max depth reached>''), {0, 2})"
  using depth_limit_three [of "VRef 4" nested_heap "{0, 2}" "VRef 0"
          "[Key ''child'', Index 0, Key ''child'', Index 0]" "JStr ''<max depth reached>''"]
  by (simp add: nested_heap_def eval_nat_numeral)

section \<open>Primitives and the depth sentinel\<close>







section \<open>Objects met twice\<close>

text \<open>
  C3. \<open>seen\<close> is never emptied: an object is added on its first visit and stays. In
  \<open>root = {a: shared, b: shared}\<close> no object is reachable from itself, yet the second
  occurrence of \<open>shared\<close> is replaced by \<open>'<circular reference>'\<close> and its content is
  emitted once only.
\<close>

theorem shared_object_second_occurrence:
  "serialize shared_heap (VRef 0) 3 =
     Inr (JObj [(''a'', JObj [(''x'', JNum 1)]), (''b'', JStr ''<circular reference>'')])"
  by (simp add: serialize_def shared_heap_def read_property_def set_property_def)

section \<open>Tool ids and command ids\<close>

text \<open>
  C6. For a command id without a space (whether or not it contains \<open>:\<close>), deriving the
  tool id by replacing every \<open>:\<close> with a space and then reversing by replacing every
  space with \<open>:\<close> gives the command id back.
\<close>

theorem tool_id_round_trip:
  "CHR '' '' \<notin> set commandId \<Longrightarrow>
     replace_all CHR '' '' CHR '':'' (replace_all CHR '':'' CHR '' '' commandId) = commandId"
  by (induction commandId) (auto simp: replace_all_def)

theorem tool_id_round_trip_witness:
  "CHR '' '' \<notin> set ''notebook:run''
   \<and> replace_all CHR '':'' CHR '' '' ''notebook:run'' = ''notebook run''
   \<and> replace_all CHR '' '' CHR '':'' (replace_all CHR '':'' CHR '' '' ''notebook:run'') =
       ''notebook:run''"
  using tool_id_round_trip [of "''notebook:run''"] by (simp add: replace_all_def)

text \<open>
  C2. The catalog of the host with \<open>notebook:run\<close> and \<open>notebook:save\<close> lists the tool
  ids \<open>notebook run\<close> and \<open>notebook save\<close>. Local execution of the tool id \<open>notebook run\<close>
  asks the registry for that very string, finds no such command, invokes nothing
  (nothing is pending) and logs a failing \<open>local_execute\<close> entry. The peer-initiated
  path, given the same tool id, reverses the substitution and invokes \<open>notebook:run\<close>.
\<close>

theorem local_execution_of_catalog_id:
  "map (get_field ''id'') (build_tools notebook_host (listCommands notebook_host)) =
     [JStr ''notebook run'', JStr ''notebook save'']
   \<and> applyToolLocal notebook_host new_manager ''notebook run'' (JObj []) =
       new_manager\<lparr>console_error := [''Command not found: notebook run''],
         messages := [(sent, JStr ''local_execute'',
            JObj [(''tool_id'', JStr ''notebook run''), (''parameters'', JObj []),
                  (''error'', JStr ''Command not found: notebook run''),
                  (''success'', JBool False)])]\<rparr>
   \<and> pending (applyToolLocal notebook_host new_manager ''notebook run'' (JObj [])) = []
   \<and> pending (applyToolFromServer notebook_host new_manager ''notebook run'' (JObj []) (JStr ''e1''))
       = [ServerCall ''notebook:run'' (JObj []) ''notebook run'' (JStr ''e1'')]"
  by (simp add: notebook_host_def replace_all_def get_field_def or_else_def falsy_def
        getCommandParameters_def applyToolLocal_def addMessage_def new_manager_def
        applyToolFromServer_def Let_def)

section \<open>Requests of the peer\<close>

text \<open>
  C4. An \<open>apply_tool\<close> message arrives on the open socket, its tool id a string that,
  with every space replaced by \<open>:\<close>, names no host command. The handler returns (no
  exception), invokes no command, and hands to the socket exactly one message: a
  \<open>tool_result\<close> with the tool id as received, the \<open>execution_id\<close> of the request
  unchanged, \<open>success: false\<close> and the error \<open>Command not found: \<close> followed by the
  command id.
\<close>

theorem command_not_found_response:
  assumes "ws st = Some (i, OPEN)"
    and "get_field ''type'' message = JStr ''apply_tool''"
    and "get_field ''tool_id'' message = JStr toolId"
    and "\<not> hasCommand c (replace_all CHR '' '' CHR '':'' toolId)"
  shows "wire (dispatch c st (SocketMessage i (Some message))) =
           wire st @
             [(i, JObj [(''type'', JStr ''tool_result''), (''tool_id'', JStr toolId),
                        (''execution_id'', get_field ''execution_id'' message),
                        (''success'', JBool False),
                        (''error'', JStr (''Command not found: ''
                                          @ replace_all CHR '' '' CHR '':'' toolId))])]
         \<and> pending (dispatch c st (SocketMessage i (Some message))) = pending st
         \<and> ws (dispatch c st (SocketMessage i (Some message))) = ws st"
proof -
  have "message \<noteq> JNull" "message \<noteq> JUndefined"
    using assms(2) by (auto simp: get_field_def)
  then show ?thesis using assms
    by (simp add: handleMessage_def applyToolFromServer_def sendMessage_def addMessage_def Let_def)
qed

text \<open>The request for \<open>nonexistent cmd\<close> with execution id \<open>e2\<close>, on a fresh open connection.\<close>

theorem command_not_found_response_witness:
  "ws (run notebook_host (connect new_manager) [SocketOpen 0]) = Some (0, OPEN)
   \<and> \<not> hasCommand notebook_host (replace_all CHR '' '' CHR '':'' ''nonexistent cmd'')
   \<and> wire (run notebook_host (connect new_manager)
        [SocketOpen 0,
         SocketMessage 0 (Some (JObj [(''type'', JStr ''apply_tool''),
            (''tool_id'', JStr ''nonexistent cmd''), (''parameters'', JObj []),
            (''execution_id'', JStr ''e2'')]))]) =
       [(0, JObj [(''type'', JStr ''tool_result''), (''tool_id'', JStr ''nonexistent cmd''),
                  (''execution_id'', JStr ''e2''), (''success'', JBool False),
                  (''error'', JStr ''Command not found: nonexistent:cmd'')])]"
  using command_not_found_response
    [of "run notebook_host (connect new_manager) [SocketOpen 0]" 0
        "JObj [(''type'', JStr ''apply_tool''),
            (''tool_id'', JStr ''nonexistent cmd''), (''parameters'', JObj []),
            (''execution_id'', JStr ''e2'')]"
        "''nonexistent cmd''" notebook_host]
  by (simp add: new_manager_def connect_def onopen_def set_readyState_def get_field_def
        notebook_host_def replace_all_def)

section \<open>Sending while not open\<close>

text \<open>
  C9. When \<open>this.ws\<close> is \<open>null\<close> or its socket is connecting, closing or closed,
  \<open>sendMessage\<close> returns (no exception) a state that differs from the one before only
  by the logged error line: nothing is handed to the socket, and the state keeps nothing
  of the message, so that whatever happens afterwards is the same for every message
  that could have been given.
\<close>

theorem send_while_not_open:
  "(\<forall>i. ws st \<noteq> Some (i, OPEN)) \<Longrightarrow>
     sendMessage st message =
       st\<lparr>console_error := console_error st @ [''WebSocket is not connected'']\<rparr>
     \<and> wire (sendMessage st message) = wire st
     \<and> run c (sendMessage st message) evs = run c (sendMessage st message') evs"
  by (auto simp: sendMessage_def split: option.splits prod.splits readyState.splits)

text \<open>Before any connection, and while the first socket is still connecting.\<close>

theorem send_while_not_open_witness:
  "(\<forall>i. ws new_manager \<noteq> Some (i, OPEN))
   \<and> sendMessage new_manager (JObj [(''type'', JStr ''apply_tool'')]) =
       new_manager\<lparr>console_error := [''WebSocket is not connected'']\<rparr>
   \<and> (\<forall>i. ws (connect new_manager) \<noteq> Some (i, OPEN))
   \<and> wire (sendMessage (connect new_manager) (JObj [(''type'', JStr ''apply_tool'')])) = []"
  using send_while_not_open [of new_manager "JObj [(''type'', JStr ''apply_tool'')]"]
    send_while_not_open [of "connect new_manager" "JObj [(''type'', JStr ''apply_tool'')]"]
  by (simp add: new_manager_def connect_def)

section \<open>Reconnecting\<close>

lemma sendMessage_retry [simp]:
  "created (sendMessage st m) = created st"
  "timers (sendMessage st m) = timers st"
  "reconnectAttempts (sendMessage st m) = reconnectAttempts st"
  by (auto simp: sendMessage_def addMessage_def split: option.splits prod.splits readyState.splits)

lemma addMessage_retry [simp]:
  "created (addMessage st d t m) = created st"
  "timers (addMessage st d t m) = timers st"
  "reconnectAttempts (addMessage st d t m) = reconnectAttempts st"
  by (simp_all add: addMessage_def)

lemma set_readyState_retry [simp]:
  "created (set_readyState st i r) = created st"
  "timers (set_readyState st i r) = timers st"
  "reconnectAttempts (set_readyState st i r) = reconnectAttempts st"
  by (auto simp: set_readyState_def split: option.splits prod.splits)

lemma handleMessage_retry [simp]:
  "created (handleMessage c st data) = created st"
  "timers (handleMessage c st data) = timers st"
  "reconnectAttempts (handleMessage c st data) = reconnectAttempts st"
  by (auto simp: handleMessage_def applyToolFromServer_def applyToolFromServer_failed_def Let_def
           split: option.splits json.splits)

lemma settle_retry [simp]:
  "created (settle st k out) = created st"
  "timers (settle st k out) = timers st"
  "reconnectAttempts (settle st k out) = reconnectAttempts st"
  by (auto simp: settle_def applyToolLocal_settled_def applyToolLocal_failed_def
        applyToolFromServer_settled_def applyToolFromServer_failed_def Let_def
      split: invocation.splits outcome.splits sum.splits exn.splits)

lemma other_event_retry:
  assumes "\<not> is_SocketOpen e" "\<not> is_SocketClose e"
  shows "attempts_made (dispatch c st e) = attempts_made st
       \<and> reconnectAttempts (dispatch c st e) = reconnectAttempts st"
  using assms
  by (cases e)
     (auto simp: attempts_made_def onerror_def connect_def registerTools_def Let_def close_def
        applyToolLocal_def applyToolRemote_def split: option.splits)

lemma close_event_retry:
  "attempts_made (dispatch c st (SocketClose i)) =
     (if reconnectAttempts st < 5 then Suc (attempts_made st) else attempts_made st)"
  "reconnectAttempts (dispatch c st (SocketClose i)) =
     (if reconnectAttempts st < 5 then Suc (reconnectAttempts st) else reconnectAttempts st)"
  by (auto simp: attempts_made_def onclose_def attemptReconnect_def maxReconnectAttempts_def)

lemma run_without_open:
  "list_all (\<lambda>e. \<not> is_SocketOpen e) evs \<Longrightarrow>
     attempts_made (run c st evs) =
       attempts_made st + min (length (filter is_SocketClose evs)) (5 - reconnectAttempts st)"
proof (induction evs arbitrary: st)
  case Nil
  then show ?case by simp
next
  case (Cons e es)
  then have ih: "attempts_made (run c (dispatch c st e) es) =
       attempts_made (dispatch c st e)
         + min (length (filter is_SocketClose es)) (5 - reconnectAttempts (dispatch c st e))"
    and e: "\<not> is_SocketOpen e"
    by simp_all
  show ?case
  proof (cases "is_SocketClose e")
    case True
    then obtain i where "e = SocketClose i" by (cases e) simp_all
    then show ?thesis using ih
      by (auto simp add: close_event_retry min_def simp del: dispatch.simps)
  next
    case False
    then show ?thesis using ih other_event_retry[OF e False, of c st]
      by (simp del: dispatch.simps)
  qed
qed

text \<open>
  C5. Over any sequence of events in which no socket opens, the number of reconnect
  attempts scheduled is the number of close events, capped by what is left of the budget
  of 5: never more than 5, so a sixth consecutive close schedules nothing. An open
  event sets the counter to zero, and from there on the cap is 5 again.
\<close>

theorem reconnect_budget:
  "(list_all (\<lambda>e. \<not> is_SocketOpen e) evs \<longrightarrow>
      attempts_made (run c st evs) =
        attempts_made st + min (length (filter is_SocketClose evs)) (5 - reconnectAttempts st)
      \<and> attempts_made (run c st evs) \<le> attempts_made st + 5)
   \<and> reconnectAttempts (dispatch c st (SocketOpen i)) = 0
   \<and> (list_all (\<lambda>e. \<not> is_SocketOpen e) evs \<longrightarrow>
      attempts_made (run c st (SocketOpen i # evs)) =
        attempts_made st + min (length (filter is_SocketClose evs)) 5)"
proof (intro conjI impI)
  assume a: "list_all (\<lambda>e. \<not> is_SocketOpen e) evs"
  show "attempts_made (run c st evs) =
        attempts_made st + min (length (filter is_SocketClose evs)) (5 - reconnectAttempts st)"
    using run_without_open[OF a] .
  then show "attempts_made (run c st evs) \<le> attempts_made st + 5" by simp
next
  show "reconnectAttempts (dispatch c st (SocketOpen i)) = 0" by (simp add: onopen_def)
next
  assume a: "list_all (\<lambda>e. \<not> is_SocketOpen e) evs"
  show "attempts_made (run c st (SocketOpen i # evs)) =
        attempts_made st + min (length (filter is_SocketClose evs)) 5"
    using run_without_open[OF a, of c "dispatch c st (SocketOpen i)"]
    by (simp add: onopen_def attempts_made_def)
qed

text \<open>
  After an open, six sockets in a row close, each reconnect coming due before the next
  close: five reconnects are made, the sixth close schedules none.
\<close>

theorem reconnect_budget_witness:
  "list_all (\<lambda>e. \<not> is_SocketOpen e) six_failures
   \<and> length (filter is_SocketClose six_failures) = 6
   \<and> attempts_made (connect new_manager) = 1
   \<and> attempts_made (run notebook_host (connect new_manager) (SocketOpen 0 # six_failures)) = 6
   \<and> reconnectAttempts (dispatch notebook_host (connect new_manager) (SocketOpen 0)) = 0"
  using reconnect_budget [of six_failures notebook_host "connect new_manager" 0]
  by (simp add: six_failures_def attempts_made_def connect_def new_manager_def)

text \<open>
  C1. A connection is open; the host calls \<open>close()\<close>, which starts closing the socket
  and sets \<open>this.ws\<close> to \<open>null\<close>. The socket's close event then runs the same \<open>onclose\<close>
  handler as an unexpected close: a reconnect is scheduled (attempt 1 of 5), and when it
  comes due \<open>connect()\<close> opens a new socket.
\<close>

theorem close_event_after_close_reconnects:
  "run notebook_host (connect new_manager) [SocketOpen 0, CallClose] =
     new_manager\<lparr>ws := None, created := 1, frames := 1\<rparr>
   \<and> run notebook_host (connect new_manager) [SocketOpen 0, CallClose, SocketClose 0] =
     new_manager\<lparr>ws := None, created := 1, frames := 1, reconnectAttempts := 1, timers := 1\<rparr>
   \<and> run notebook_host (connect new_manager)
       [SocketOpen 0, CallClose, SocketClose 0, TimerFires] =
     new_manager\<lparr>ws := Some (1, CONNECTING), created := 2, frames := 1,
       reconnectAttempts := 1, timers := 0\<rparr>"
  by (simp add: new_manager_def connect_def onopen_def set_readyState_def close_def onclose_def
        attemptReconnect_def maxReconnectAttempts_def)


end
